theory Spec2Isabelle
  imports Main
begin

section \<open>Go library functions used by gomr\<close>

text \<open>
  A Go string is a sequence of bytes, here a \<open>char list\<close>. The library functions below are
  the ones \<^verbatim>\<open>main.go\<close> calls, with the behaviour the Go documentation gives them on
  ASCII text (module names and paths): \<^verbatim>\<open>strings.Fields\<close> and \<^verbatim>\<open>strings.ToLower\<close>
  decode UTF-8 and know further Unicode spaces and letters, which the model leaves alone.
\<close>

definition isSpace :: "char \<Rightarrow> bool" where
  \<comment> \<open>the \<^verbatim>\<open>asciiSpace\<close> table of package strings: tab, newline, vertical tab, form feed,
      carriage return, space\<close>
  "isSpace c = (c = CHR 0x09 \<or> c = CHR 0x0A \<or> c = CHR 0x0B \<or> c = CHR 0x0C \<or> c = CHR 0x0D \<or> c = CHR 0x20)"

fun fieldsFrom :: "string \<Rightarrow> string \<Rightarrow> string list" where
  "fieldsFrom cur [] = (if cur = [] then [] else [cur])"
| "fieldsFrom cur (c # cs) =
     (if isSpace c then (if cur = [] then fieldsFrom [] cs else cur # fieldsFrom [] cs)
      else fieldsFrom (cur @ [c]) cs)"

definition Fields :: "string \<Rightarrow> string list" where
  \<comment> \<open>\<^verbatim>\<open>strings.Fields\<close>: the maximal runs of non-space bytes, in order\<close>
  "Fields s = fieldsFrom [] s"

definition HasPrefix :: "string \<Rightarrow> string \<Rightarrow> bool" where
  \<comment> \<open>\<^verbatim>\<open>strings.HasPrefix\<close>\<close>
  "HasPrefix s p = (length p \<le> length s \<and> take (length p) s = p)"

definition toLowerByte :: "char \<Rightarrow> char" where
  "toLowerByte c =
     (case map_of (zip ''ABCDEFGHIJKLMNOPQRSTUVWXYZ'' ''abcdefghijklmnopqrstuvwxyz'') c of
        None \<Rightarrow> c
      | Some l \<Rightarrow> l)"

definition ToLower :: "string \<Rightarrow> string" where
  \<comment> \<open>\<^verbatim>\<open>strings.ToLower\<close> on ASCII: \<open>A\<close>..\<open>Z\<close> become \<open>a\<close>..\<open>z\<close>\<close>
  "ToLower s = map toLowerByte s"

fun Sprintf :: "string \<Rightarrow> string list \<Rightarrow> string" where
  \<comment> \<open>\<^verbatim>\<open>fmt.Sprintf\<close> for formats whose only verb is \<^verbatim>\<open>%s\<close>, applied to strings\<close>
  "Sprintf [] args = []"
| "Sprintf [c] args = [c]"
| "Sprintf (c # d # fs) args =
     (if c = CHR ''%'' \<and> d = CHR ''s''
      then (case args of [] \<Rightarrow> ''%!s(MISSING)'' @ Sprintf fs [] | a # as \<Rightarrow> a @ Sprintf fs as)
      else c # Sprintf (d # fs) args)"

fun joinWith :: "string \<Rightarrow> string list \<Rightarrow> string" where
  \<comment> \<open>\<^verbatim>\<open>strings.Join\<close>\<close>
  "joinWith sep [] = []"
| "joinWith sep [x] = x"
| "joinWith sep (x # y # ys) = x @ sep @ joinWith sep (y # ys)"

definition Sprintln :: "string list \<Rightarrow> string" where
  \<comment> \<open>\<^verbatim>\<open>fmt.Sprintln\<close> of string operands: the operands as they are (no verb is
      interpreted), a space between each two, a newline at the end\<close>
  "Sprintln operands = joinWith '' '' operands @ [CHR 0x0A]"

subsection \<open>path/filepath\<close>

fun splitFrom :: "char \<Rightarrow> string \<Rightarrow> string \<Rightarrow> string list" where
  "splitFrom sep cur [] = [cur]"
| "splitFrom sep cur (c # cs) =
     (if c = sep then cur # splitFrom sep [] cs else splitFrom sep (cur @ [c]) cs)"

fun cleanElems :: "bool \<Rightarrow> string list \<Rightarrow> string list \<Rightarrow> string list" where
  \<comment> \<open>the loop of \<^verbatim>\<open>filepath.Clean\<close> over the elements between separators; \<open>out\<close> is the
      output buffer as a list of elements\<close>
  "cleanElems rooted out [] = out"
| "cleanElems rooted out (e # es) =
     (if e = [] \<or> e = ''.'' then cleanElems rooted out es
      else if e = ''..'' then
        (if out \<noteq> [] \<and> last out \<noteq> ''..'' then cleanElems rooted (butlast out) es
         else if rooted then cleanElems rooted out es
         else cleanElems rooted (out @ [''..'']) es)
      else cleanElems rooted (out @ [e]) es)"

definition Clean :: "string \<Rightarrow> string" where
  \<comment> \<open>\<^verbatim>\<open>filepath.Clean\<close> on Unix\<close>
  "Clean path =
     (if path = [] then ''.''
      else let rooted = (hd path = CHR ''/'');
               out = cleanElems rooted [] (splitFrom (CHR ''/'') [] path)
           in if rooted then ''/'' @ joinWith ''/'' out
              else if out = [] then ''.'' else joinWith ''/'' out)"

definition Join :: "string list \<Rightarrow> string" where
  \<comment> \<open>\<^verbatim>\<open>filepath.Join\<close>: leading empty elements are dropped, the rest joined and cleaned\<close>
  "Join elem =
     (case dropWhile (\<lambda>e. e = []) elem of [] \<Rightarrow> [] | e # es \<Rightarrow> Clean (joinWith ''/'' (e # es)))"

subsection \<open>bufio.Scanner with the default split function ScanLines\<close>

fun linesFrom :: "string \<Rightarrow> string \<Rightarrow> string list" where
  \<comment> \<open>the newline-terminated lines, and a last unterminated one when it is not empty\<close>
  "linesFrom cur [] = (if cur = [] then [] else [cur])"
| "linesFrom cur (c # cs) =
     (if c = CHR 0x0A then cur # linesFrom [] cs else linesFrom (cur @ [c]) cs)"

definition dropCR :: "string \<Rightarrow> string" where
  "dropCR data = (if data \<noteq> [] \<and> last data = CHR 0x0D then butlast data else data)"

definition MaxScanTokenSize :: nat where
  \<comment> \<open>\<^verbatim>\<open>bufio.MaxScanTokenSize = 64 * 1024\<close>: a line that does not fit the buffer stops the
      scanner with \<^verbatim>\<open>ErrTooLong\<close>\<close>
  "MaxScanTokenSize = 65536"

section \<open>The record store\<close>

datatype error =
    ErrorString string            \<comment> \<open>\<^verbatim>\<open>fmt.Errorf\<close>, \<^verbatim>\<open>errors.New\<close>\<close>
  | ErrNotExist string            \<comment> \<open>a path error for which \<^verbatim>\<open>os.IsNotExist\<close> holds\<close>
  | PathError string              \<comment> \<open>any other error of the operating system on a path\<close>
  | GetwdError
  | ErrTooLong
  | ExitError                     \<comment> \<open>the external command failed\<close>
  | Wrap error string             \<comment> \<open>\<^verbatim>\<open>errors.Wrap(err, message)\<close>\<close>
  | PanicIndexOutOfRange          \<comment> \<open>run-time panic: the process crashes\<close>

record replace =
  ModuleName :: string
  AbsPath :: string
  AddGoMod :: bool

definition parseLine :: "string \<Rightarrow> error + replace" where
  \<comment> \<open>the body of the scanning loop of \<^verbatim>\<open>readGomrFile\<close>; \<^verbatim>\<open>splits[0]\<close> and
      \<^verbatim>\<open>splits[1]\<close> are unchecked index expressions\<close>
  "parseLine text =
     (case Fields text of
        [] \<Rightarrow> Inl PanicIndexOutOfRange
      | [s0] \<Rightarrow> Inl PanicIndexOutOfRange
      | s0 # s1 # rest \<Rightarrow>
          if HasPrefix s1 ''!''
          then Inr \<lparr>ModuleName = s0, AbsPath = drop 1 s1, AddGoMod = True\<rparr>
          else Inr \<lparr>ModuleName = s0, AbsPath = s1, AddGoMod = False\<rparr>)"

fun scanLoop :: "replace list \<Rightarrow> string list \<Rightarrow> error + replace list" where
  "scanLoop replaces [] = Inr replaces"
| "scanLoop replaces (l # ls) =
     (if MaxScanTokenSize \<le> length l then Inl ErrTooLong
      else case parseLine (dropCR l) of
             Inl e \<Rightarrow> Inl e
           | Inr r \<Rightarrow> scanLoop (replaces @ [r]) ls)"

definition readGomr :: "string \<Rightarrow> error + replace list" where
  \<comment> \<open>\<^verbatim>\<open>readGomrFile\<close> from the scanner on: the contents of the opened file to the records\<close>
  "readGomr contents = scanLoop [] (linesFrom [] contents)"

fun writeLoop :: "string \<Rightarrow> replace list \<Rightarrow> string" where
  \<comment> \<open>the loop of \<^verbatim>\<open>writeGomrFile\<close>: \<open>f\<close> is what has been written to the file so far\<close>
  "writeLoop f [] = f"
| "writeLoop f (r # rs) =
     (let absPath = (if AddGoMod r then ''!'' @ AbsPath r else AbsPath r)
      in writeLoop (f @ Sprintln [''%s %s'', ModuleName r, absPath]) rs)"

section \<open>The world gomr runs in\<close>

text \<open>
  The file system maps the path names the program hands to the operating system to what
  is there: a regular file with its contents, a directory (one that holds entries, so
  that removing it fails), or a name on which every operation fails with an error other
  than "does not exist" (no permission, say). Path names are compared as they are
  written, and there is no directory tree: a file can be created under any name that has
  no entry. Writing to an opened file and closing it do not fail in the model.

  The \<^verbatim>\<open>go\<close> command is outside the repository: it is a parameter, a function from the
  world, the directory and the arguments of the invocation to \<open>None\<close> (exit status 0) or
  its combined output (any failure), and to the file system it leaves behind.
\<close>

datatype node = File string | Dir | Denied

record world =
  wd :: "string option"                          \<comment> \<open>\<^verbatim>\<open>os.Getwd\<close>; \<open>None\<close> when it fails\<close>
  GOPATH :: string                               \<comment> \<open>\<^verbatim>\<open>os.Getenv("GOPATH")\<close>\<close>
  files :: "string \<Rightarrow> node option"
  invocations :: "(string \<times> string list) list"   \<comment> \<open>every run of \<^verbatim>\<open>go\<close>: \<^verbatim>\<open>cmd.Dir\<close> and the arguments\<close>
  stdout :: string
  stderr :: string

type_synonym gotool = "world \<Rightarrow> string \<Rightarrow> string list \<Rightarrow> string option \<times> (string \<Rightarrow> node option)"

definition gomrFilename :: string where
  "gomrFilename = ''.gomr''"

definition Stat :: "world \<Rightarrow> string \<Rightarrow> error + bool" where
  \<comment> \<open>\<^verbatim>\<open>os.Stat\<close>; of the file information only \<^verbatim>\<open>IsDir()\<close> is kept\<close>
  "Stat w name =
     (case files w name of
        None \<Rightarrow> Inl (ErrNotExist name)
      | Some (File contents) \<Rightarrow> Inr False
      | Some Dir \<Rightarrow> Inr True
      | Some Denied \<Rightarrow> Inl (PathError name))"

definition IsNotExist :: "error \<Rightarrow> bool" where
  "IsNotExist err = (case err of ErrNotExist name \<Rightarrow> True | _ \<Rightarrow> False)"

definition Remove :: "string \<Rightarrow> world \<Rightarrow> error option \<times> world" where
  \<comment> \<open>\<^verbatim>\<open>os.Remove\<close>\<close>
  "Remove name w =
     (case files w name of
        None \<Rightarrow> (Some (ErrNotExist name), w)
      | Some (File contents) \<Rightarrow> (None, w\<lparr>files := (files w)(name := None)\<rparr>)
      | Some Dir \<Rightarrow> (Some (PathError name), w)
      | Some Denied \<Rightarrow> (Some (PathError name), w))"

definition appendFile :: "string \<Rightarrow> string \<Rightarrow> world \<Rightarrow> error option \<times> world" where
  \<comment> \<open>\<^verbatim>\<open>os.OpenFile(name, O_CREATE|O_APPEND|O_WRONLY, 0664)\<close>, one write, \<^verbatim>\<open>Close\<close>\<close>
  "appendFile name s w =
     (case files w name of
        None \<Rightarrow> (None, w\<lparr>files := (files w)(name \<mapsto> File s)\<rparr>)
      | Some (File contents) \<Rightarrow> (None, w\<lparr>files := (files w)(name \<mapsto> File (contents @ s))\<rparr>)
      | Some Dir \<Rightarrow> (Some (PathError name), w)
      | Some Denied \<Rightarrow> (Some (PathError name), w))"

definition readGomrFile :: "world \<Rightarrow> string \<Rightarrow> error + replace list" where
  \<comment> \<open>a directory opens, and the scanner's first read fails\<close>
  "readGomrFile w path =
     (case files w path of
        None \<Rightarrow> Inl (ErrNotExist path)
      | Some (File contents) \<Rightarrow> readGomr contents
      | Some Dir \<Rightarrow> Inl (PathError path)
      | Some Denied \<Rightarrow> Inl (PathError path))"

definition writeGomrFile :: "string \<Rightarrow> replace list \<Rightarrow> world \<Rightarrow> error option \<times> world" where
  \<comment> \<open>\<^verbatim>\<open>os.Create\<close> truncates the file or creates it\<close>
  "writeGomrFile path replaces w =
     (case files w path of
        Some Dir \<Rightarrow>
          (Some (Wrap (PathError path) (Sprintf ''failed to open %s file for writing'' [gomrFilename])), w)
      | Some Denied \<Rightarrow>
          (Some (Wrap (PathError path) (Sprintf ''failed to open %s file for writing'' [gomrFilename])), w)
      | _ \<Rightarrow> (None, w\<lparr>files := (files w)(path \<mapsto> File (writeLoop [] replaces))\<rparr>))"

definition gomod :: "gotool \<Rightarrow> string \<Rightarrow> string list \<Rightarrow> world \<Rightarrow> error option \<times> world" where
  \<comment> \<open>\<^verbatim>\<open>cmd.Dir\<close> is set when \<open>dir\<close> is not empty and is the empty string otherwise: the
      command then runs in the working directory of the process\<close>
  "gomod go dir args w =
     (let arguments = ''mod'' # args;
          cmdDir = (if length dir \<noteq> 0 then dir else []);
          w' = w\<lparr>files := snd (go w cmdDir arguments),
                 invocations := invocations w @ [(cmdDir, arguments)]\<rparr>
      in case fst (go w cmdDir arguments) of
           Some b \<Rightarrow> (Some ExitError, w'\<lparr>stderr := stderr w' @ Sprintf ''%s\<newline>'' [b]\<rparr>)
         | None \<Rightarrow> (None, w'))"

subsection \<open>findModuleRoot\<close>

text \<open>
  The loop has no statement that changes \<open>d\<close>: \<^verbatim>\<open>continue\<close> and the end of the body both
  lead back to the test with the same directory. The loop may therefore not return, and
  is a partial function: \<open>None\<close> is "does not return".
\<close>

partial_function (option) findLoop :: "world \<Rightarrow> string \<Rightarrow> (error + string) option" where
  "findLoop w d =
     (if d = [] \<or> d = ''/''
      then Some (Inl (ErrorString ''could not find a go.mod in the working directory or it's parents''))
      else case Stat w (Join [d, ''go.mod'']) of
             Inl err \<Rightarrow> if IsNotExist err then findLoop w d else Some (Inl err)
           | Inr isDir \<Rightarrow> if \<not> isDir then Some (Inr d) else findLoop w d)"

definition findModuleRoot :: "world \<Rightarrow> (error + string) option" where
  "findModuleRoot w = (case wd w of None \<Rightarrow> Some (Inl GetwdError) | Some d \<Rightarrow> findLoop w d)"

section \<open>The four commands\<close>

text \<open>
  A command returns \<open>None\<close> when it does not return, and otherwise the error it returns
  (\<open>None\<close> for \<^verbatim>\<open>nil\<close>) and the world it leaves behind. \<^verbatim>\<open>cobra\<close> checks the number of
  arguments before it calls \<^verbatim>\<open>addRun\<close> and \<^verbatim>\<open>removeRun\<close>; without that check
  \<^verbatim>\<open>args[0]\<close> on no arguments is the index panic.
\<close>

definition needsGoMod :: "world \<Rightarrow> string \<Rightarrow> error + bool" where
  \<comment> \<open>lines 78 to 83 of \<^verbatim>\<open>addRun\<close>: does the path lack a \<^verbatim>\<open>go.mod\<close>\<close>
  "needsGoMod w absPath =
     (case Stat w (Join [absPath, ''go.mod'']) of
        Inl err \<Rightarrow> if IsNotExist err then Inr True else Inl err
      | Inr isDir \<Rightarrow> Inr False)"

definition addRecord :: "gotool \<Rightarrow> string \<Rightarrow> string \<Rightarrow> bool \<Rightarrow> string \<Rightarrow> world \<Rightarrow> error option \<times> world" where
  \<comment> \<open>lines 90 to 123 of \<^verbatim>\<open>addRun\<close>\<close>
  "addRecord go moduleName absPath addGoMod modRoot w =
     (case (if addGoMod then gomod go absPath [''init'', moduleName] w else (None, w)) of
        (Some err, w1) \<Rightarrow> (Some (Wrap err (Sprintf ''failed to go mod init in dir: %s'' [absPath])), w1)
      | (None, w1) \<Rightarrow>
          (case gomod go modRoot [''edit'', Sprintf ''-replace=%s=%s'' [moduleName, absPath]] w1 of
             (Some err, w2) \<Rightarrow> (Some err, w2)
           | (None, w2) \<Rightarrow>
               (let fmtStr = (if addGoMod then ''%s !%s'' else ''%s %s'')
                in case appendFile (Join [modRoot, gomrFilename]) (Sprintf fmtStr [moduleName, absPath]) w2 of
                     (Some err, w3) \<Rightarrow>
                       (Some (Wrap err (Sprintf ''failed to open %s file for writing'' [gomrFilename])), w3)
                   | (None, w3) \<Rightarrow>
                       (None, w3\<lparr>stdout := stdout w3 @
                                  Sprintf ''added replace: %s => %s\<newline>'' [moduleName, absPath]\<rparr>))))"

definition addRun :: "gotool \<Rightarrow> string list \<Rightarrow> world \<Rightarrow> (error option \<times> world) option" where
  "addRun go args w =
     (case args of
        [] \<Rightarrow> Some (Some PanicIndexOutOfRange, w)
      | moduleName # rest \<Rightarrow>
          (let given = (case rest of [] \<Rightarrow> [] | a # as \<Rightarrow> a);
               absPath = (if length given = 0 then Join [GOPATH w, ''src'', moduleName] else given)
           in case Stat w absPath of
                Inl err \<Rightarrow>
                  if IsNotExist err
                  then Some (Some (ErrorString (Sprintf ''path %s does not exist'' [absPath])), w)
                  else Some (Some err, w)
              | Inr isDir \<Rightarrow>
                  (case needsGoMod w absPath of
                     Inl err \<Rightarrow> Some (Some err, w)
                   | Inr addGoMod \<Rightarrow>
                       (case findModuleRoot w of
                          None \<Rightarrow> None
                        | Some (Inl err) \<Rightarrow> Some (Some err, w)
                        | Some (Inr modRoot) \<Rightarrow>
                            Some (addRecord go moduleName absPath addGoMod modRoot w)))))"

function removeLoop ::
  "string \<Rightarrow> nat \<Rightarrow> replace list \<Rightarrow> replace \<Rightarrow> bool \<Rightarrow> replace list \<times> replace \<times> bool" where
  "removeLoop moduleName i replaces deleted found =
     (if i < length replaces
      then (if ToLower (ModuleName (replaces ! i)) = ToLower moduleName
            then removeLoop moduleName (i + 1) (butlast (replaces[i := last replaces])) (replaces ! i) True
            else removeLoop moduleName (i + 1) replaces deleted found)
      else (replaces, deleted, found))"
  by pat_completeness auto
termination
  by (relation "measure (\<lambda>(moduleName, i, replaces, deleted, found). length replaces - i)") auto

declare removeLoop.simps [simp del]

definition removeAdded :: "replace \<Rightarrow> world \<Rightarrow> error option \<times> world" where
  \<comment> \<open>lines 165 to 173 of \<^verbatim>\<open>removeRun\<close>\<close>
  "removeAdded deleted w =
     (case Remove (Join [AbsPath deleted, ''go.mod'']) w of
        (err, w1) \<Rightarrow>
          if err \<noteq> None \<and> \<not> IsNotExist (the err)
          then (Some (Wrap (the err) ''something went wrong when trying to delete the added go.mod''), w1)
          else (case Remove (Join [AbsPath deleted, ''go.sum'']) w1 of
                  (err, w2) \<Rightarrow>
                    if err \<noteq> None \<and> \<not> IsNotExist (the err)
                    then (Some (Wrap (the err) ''something went wrong when trying to delete the added go.sum''), w2)
                    else (None, w2)))"

definition removeFound ::
  "gotool \<Rightarrow> string \<Rightarrow> string \<Rightarrow> replace list \<Rightarrow> replace \<Rightarrow> world \<Rightarrow> error option \<times> world" where
  \<comment> \<open>lines 157 to 182 of \<^verbatim>\<open>removeRun\<close>\<close>
  "removeFound go moduleName gomrFilePath replaces deleted w =
     (case gomod go [] [''edit'', Sprintf ''-dropreplace=%s'' [moduleName]] w of
        (Some err, w1) \<Rightarrow> (Some err, w1)
      | (None, w1) \<Rightarrow>
          (case (if AddGoMod deleted then removeAdded deleted w1 else (None, w1)) of
             (Some err, w2) \<Rightarrow> (Some err, w2)
           | (None, w2) \<Rightarrow>
               (case writeGomrFile gomrFilePath replaces w2 of
                  (Some err, w3) \<Rightarrow> (Some (Wrap err ''failed to write gomr file after remove''), w3)
                | (None, w3) \<Rightarrow>
                    (None, w3\<lparr>stdout := stdout w3 @
                               Sprintf ''deleted replace: %s => %s\<newline>''
                                 [ModuleName deleted, AbsPath deleted]\<rparr>))))"

definition removeRun :: "gotool \<Rightarrow> string list \<Rightarrow> world \<Rightarrow> (error option \<times> world) option" where
  "removeRun go args w =
     (case args of
        [] \<Rightarrow> Some (Some PanicIndexOutOfRange, w)
      | moduleName # rest \<Rightarrow>
          (case findModuleRoot w of
             None \<Rightarrow> None
           | Some (Inl err) \<Rightarrow> Some (Some err, w)
           | Some (Inr modRoot) \<Rightarrow>
               (let gomrFilePath = Join [modRoot, gomrFilename]
                in case readGomrFile w gomrFilePath of
                     Inl err \<Rightarrow> Some (Some err, w)
                   | Inr replaces \<Rightarrow>
                       (case removeLoop moduleName 0 replaces
                               \<lparr>ModuleName = [], AbsPath = [], AddGoMod = False\<rparr> False of
                          (replaces', deleted, found) \<Rightarrow>
                            if \<not> found
                            then Some (None, w\<lparr>stdout := stdout w @
                                   Sprintf ''could not find stored replace for module: %s\<newline>'' [moduleName]\<rparr>)
                            else Some (removeFound go moduleName gomrFilePath replaces' deleted w)))))"

fun upLoop :: "gotool \<Rightarrow> replace list \<Rightarrow> string list \<Rightarrow> world \<Rightarrow> (error + string list) \<times> world" where
  \<comment> \<open>the loop of \<^verbatim>\<open>upRun\<close> over the records still to visit\<close>
  "upLoop go [] replaceArgs w = (Inr replaceArgs, w)"
| "upLoop go (r # rs) replaceArgs w =
     (case (if AddGoMod r then gomod go (AbsPath r) [''init'', ModuleName r] w else (None, w)) of
        (Some err, w1) \<Rightarrow>
          (Inl (Wrap err (Sprintf ''failed to go mod init in dir: %s'' [AbsPath r])), w1)
      | (None, w1) \<Rightarrow>
          upLoop go rs (replaceArgs @ [Sprintf ''-replace=%s=%s'' [ModuleName r, AbsPath r]]) w1)"

definition upRun :: "gotool \<Rightarrow> world \<Rightarrow> (error option \<times> world) option" where
  "upRun go w =
     (case findModuleRoot w of
        None \<Rightarrow> None
      | Some (Inl err) \<Rightarrow> Some (Some err, w)
      | Some (Inr modRoot) \<Rightarrow>
          (let gomrFilePath = Join [modRoot, gomrFilename]
           in case readGomrFile w gomrFilePath of
                Inl err \<Rightarrow> Some (Some err, w)
              | Inr replaces \<Rightarrow>
                  (case upLoop go replaces [] w of
                     (Inl err, w1) \<Rightarrow> Some (Some err, w1)
                   | (Inr replaceArgs, w1) \<Rightarrow>
                       (case gomod go [] (''edit'' # replaceArgs) w1 of
                          (Some err, w2) \<Rightarrow> Some (Some err, w2)
                        | (None, w2) \<Rightarrow>
                            Some (None, w2\<lparr>stdout := stdout w2 @ Sprintln [''replace lines installed'']\<rparr>)))))"



section \<open>Worlds and a tool for the examples\<close>

definition project :: "string \<Rightarrow> (string \<times> node) list \<Rightarrow> world" where
  \<comment> \<open>a process started in directory \<open>d\<close>, with the listed files\<close>
  "project d fs =
     \<lparr>wd = Some d, GOPATH = ''/ws'', files = map_of fs, invocations = [], stdout = [], stderr = []\<rparr>"

definition goTool :: gotool where
  \<comment> \<open>a \<^verbatim>\<open>go\<close> command: \<^verbatim>\<open>mod init\<close> writes a \<^verbatim>\<open>go.mod\<close> into its directory and fails
      when there is one, every other invocation succeeds\<close>
  "goTool w dir arguments =
     (if take 2 arguments = [''mod'', ''init'']
      then (case files w (Join [dir, ''go.mod'']) of
              None \<Rightarrow>
                (None, (files w)(Join [dir, ''go.mod''] \<mapsto> File (Sprintf ''module %s\<newline>'' (drop 2 arguments))))
            | Some n \<Rightarrow> (Some ''go: go.mod already exists'', files w))
      else (None, files w))"

definition observe ::
  "string \<Rightarrow> (error option \<times> world) option \<Rightarrow>
     (error option \<times> node option \<times> (string \<times> string list) list) option" where
  \<comment> \<open>what a command returned, what it left at \<open>path\<close>, and the runs of \<^verbatim>\<open>go\<close> so far\<close>
  "observe path result =
     (case result of None \<Rightarrow> None | Some (err, w) \<Rightarrow> Some (err, files w path, invocations w))"

definition addTwice :: "world \<Rightarrow> (error option \<times> world) option" where
  \<comment> \<open>\<^verbatim>\<open>gomr add a /x/a\<close>, then \<^verbatim>\<open>gomr add b /y/b\<close>\<close>
  "addTwice w =
     (case addRun goTool [''a'', ''/x/a''] w of
        None \<Rightarrow> None
      | Some (Some err, w1) \<Rightarrow> Some (Some err, w1)
      | Some (None, w1) \<Rightarrow> addRun goTool [''b'', ''/y/b''] w1)"


section \<open>Host-module root discovery\<close>

lemma findLoop_returns:
  assumes "findLoop w d = Some r"
  shows "(d = [] \<or> d = ''/'') \<or> (\<exists>c. files w (Join [d, ''go.mod'']) = Some (File c))
           \<or> files w (Join [d, ''go.mod'']) = Some Denied"
  by (rule findLoop.raw_induct
        [where P = "\<lambda>w d r. (d = [] \<or> d = ''/'') \<or> (\<exists>c. files w (Join [d, ''go.mod'']) = Some (File c))
                       \<or> files w (Join [d, ''go.mod'']) = Some Denied",
         OF _ assms])
     (fastforce simp: Stat_def IsNotExist_def split: if_splits option.splits node.splits)

lemma findLoop_absent:
  assumes "d \<noteq> []" "d \<noteq> ''/''" "files w (Join [d, ''go.mod'']) = None"
  shows "findLoop w d = None"
proof (cases "findLoop w d")
  case None
  then show ?thesis .
next
  case (Some r)
  from findLoop_returns [OF Some] assms show ?thesis by auto
qed

lemma findLoop_directory:
  assumes "d \<noteq> []" "d \<noteq> ''/''" "files w (Join [d, ''go.mod'']) = Some Dir"
  shows "findLoop w d = None"
proof (cases "findLoop w d")
  case None
  then show ?thesis .
next
  case (Some r)
  from findLoop_returns [OF Some] assms show ?thesis by auto
qed

lemma findLoop_file:
  assumes "d \<noteq> []" "d \<noteq> ''/''" "files w (Join [d, ''go.mod'']) = Some (File c)"
  shows "findLoop w d = Some (Inr d)"
  using assms by (subst findLoop.simps) (simp add: Stat_def)

lemma findLoop_Inr:
  assumes "findLoop w d = Some (Inr root)"
  shows "root = d \<and> d \<noteq> [] \<and> d \<noteq> ''/'' \<and> (\<exists>c. files w (Join [d, ''go.mod'']) = Some (File c))"
proof -
  from findLoop_returns [OF assms] consider "d = [] \<or> d = ''/''"
    | c where "d \<noteq> []" "d \<noteq> ''/''" "files w (Join [d, ''go.mod'']) = Some (File c)"
    | "d \<noteq> []" "d \<noteq> ''/''" "files w (Join [d, ''go.mod'']) = Some Denied"
    by blast
  then show ?thesis
  proof cases
    case 1
    with assms show ?thesis by (subst (asm) findLoop.simps) auto
  next
    case 2
    with assms findLoop_file [OF 2] show ?thesis by auto
  next
    case 3
    with assms show ?thesis
      by (subst (asm) findLoop.simps) (simp add: Stat_def IsNotExist_def)
  qed
qed

lemma findModuleRoot_Inr:
  assumes "findModuleRoot w = Some (Inr root)"
  shows "wd w = Some root \<and> root \<noteq> [] \<and> root \<noteq> ''/''
           \<and> (\<exists>c. files w (Join [root, ''go.mod'']) = Some (File c))"
  using assms findLoop_Inr
  by (fastforce simp: findModuleRoot_def split: option.splits)


text \<open>
  Claim C2: the discovery moves to the parent directory whenever the marker file is
  absent, returns for every starting directory, and finds the first ancestor that holds
  the marker. The loop of \<^verbatim>\<open>findModuleRoot\<close> never changes its directory: started in
  \<^verbatim>\<open>/proj/sub\<close>, below a module root \<^verbatim>\<open>/proj\<close> that holds \<^verbatim>\<open>go.mod\<close>, it does not return.
\<close>

theorem findModuleRoot_below_root_does_not_return:
  "files (project ''/proj/sub'' [(''/proj/go.mod'', File ''module proj\<newline>'')]) ''/proj/go.mod''
     = Some (File ''module proj\<newline>'')
   \<and> findModuleRoot (project ''/proj/sub'' [(''/proj/go.mod'', File ''module proj\<newline>'')]) = None"
proof -
  have "Join [''/proj/sub'', ''go.mod''] = ''/proj/sub/go.mod''"
    by (simp add: Join_def Clean_def)
  then show ?thesis
    by (simp add: findModuleRoot_def project_def findLoop_absent)
qed

section \<open>Reading and writing the store\<close>

text \<open>
  Claim C1: a sequence of records written by \<^verbatim>\<open>writeGomrFile\<close> and read back by
  \<^verbatim>\<open>readGomrFile\<close> is the same sequence. \<^verbatim>\<open>writeGomrFile\<close> prints with \<^verbatim>\<open>Fprintln\<close>,
  which writes its format string as a first operand: the line of the record \<open>a /x/a\<close> is
  \<^verbatim>\<open>%s %s a /x/a\<close>, and reading it back gives a record named \<^verbatim>\<open>%s\<close> with path \<^verbatim>\<open>%s\<close>.
\<close>

theorem writeGomrFile_readGomrFile_loses_record:
  "files (snd (writeGomrFile ''/proj/.gomr''
                 [\<lparr>ModuleName = ''a'', AbsPath = ''/x/a'', AddGoMod = False\<rparr>] (project ''/proj'' [])))
       ''/proj/.gomr'' = Some (File ''%s %s a /x/a\<newline>'')
   \<and> readGomrFile (snd (writeGomrFile ''/proj/.gomr''
                 [\<lparr>ModuleName = ''a'', AbsPath = ''/x/a'', AddGoMod = False\<rparr>] (project ''/proj'' [])))
       ''/proj/.gomr'' = Inr [\<lparr>ModuleName = ''%s'', AbsPath = ''%s'', AddGoMod = False\<rparr>]"
  by (simp add: writeGomrFile_def readGomrFile_def project_def readGomr_def parseLine_def
      Fields_def isSpace_def dropCR_def MaxScanTokenSize_def Sprintln_def HasPrefix_def)

text \<open>
  Claim C5: on a file with a line of fewer than two fields \<^verbatim>\<open>readGomrFile\<close> returns a
  parse error and does not crash. The index expressions \<^verbatim>\<open>splits[0]\<close> and \<^verbatim>\<open>splits[1]\<close>
  are not guarded: a line of one field, and an empty line between two well-formed ones,
  both end in the index panic.
\<close>

theorem readGomrFile_short_line_panics:
  "readGomrFile (project ''/proj'' [(''/proj/.gomr'', File ''a\<newline>'')]) ''/proj/.gomr''
     = Inl PanicIndexOutOfRange
   \<and> readGomrFile (project ''/proj'' [(''/proj/.gomr'', File ''a /x/a\<newline>\<newline>b /y/b\<newline>'')]) ''/proj/.gomr''
     = Inl PanicIndexOutOfRange"
  by (simp add: readGomrFile_def project_def readGomr_def parseLine_def Fields_def isSpace_def
      dropCR_def MaxScanTokenSize_def HasPrefix_def)

section \<open>Effects of the steps\<close>

lemma cmdDir_eq: "(if d \<noteq> [] then d else []) = (d :: string)"
  by simp

lemma gomod_invocations:
  "gomod go dir args w = (e, w') \<Longrightarrow> invocations w' = invocations w @ [(dir, ''mod'' # args)]"
  by (auto simp: gomod_def Let_def cmdDir_eq split: option.splits)

lemma gomod_wd: "gomod go dir args w = (e, w') \<Longrightarrow> wd w' = wd w"
  by (auto simp: gomod_def Let_def cmdDir_eq split: option.splits)


lemma gomod_ok: "gomod go dir args w = (e, w') \<Longrightarrow> (e = None) = (fst (go w dir (''mod'' # args)) = None)"
  by (auto simp: gomod_def Let_def cmdDir_eq split: option.splits)

lemma Remove_invocations: "Remove name w = (e, w') \<Longrightarrow> invocations w' = invocations w"
  by (auto simp: Remove_def split: option.splits node.splits)

lemma Remove_wd: "Remove name w = (e, w') \<Longrightarrow> wd w' = wd w"
  by (auto simp: Remove_def split: option.splits node.splits)


lemma writeGomrFile_invocations: "writeGomrFile path rs w = (e, w') \<Longrightarrow> invocations w' = invocations w"
  by (auto simp: writeGomrFile_def split: option.splits node.splits)

lemma removeAdded_invocations: "removeAdded deleted w = (e, w') \<Longrightarrow> invocations w' = invocations w"
  by (auto simp: removeAdded_def split: prod.splits if_splits dest!: Remove_invocations)

lemma Sprintf_dropreplace: "Sprintf ''-dropreplace=%s'' [n] = ''-dropreplace='' @ n"
  by simp

lemma Sprintf_replace: "Sprintf ''-replace=%s=%s'' [n, p] = ''-replace='' @ n @ ''='' @ p"
  by simp

lemma removeFound_invocations:
  "removeFound go moduleName path rs deleted w = (e, w') \<Longrightarrow>
   invocations w' = invocations w @ [([], [''mod'', ''edit'', ''-dropreplace='' @ moduleName])]"
  by (auto simp: removeFound_def Sprintf_dropreplace split: prod.splits option.splits if_splits
      dest!: gomod_invocations removeAdded_invocations writeGomrFile_invocations)


lemma writeGomrFile_wd: "writeGomrFile path rs w = (e, w') \<Longrightarrow> wd w' = wd w"
  by (auto simp: writeGomrFile_def split: option.splits node.splits)

lemma removeAdded_wd: "removeAdded deleted w = (e, w') \<Longrightarrow> wd w' = wd w"
  by (auto simp: removeAdded_def split: prod.splits if_splits dest!: Remove_wd)

lemma removeFound_wd:
  "removeFound go moduleName path rs deleted w = (e, w') \<Longrightarrow> wd w' = wd w"
  by (auto simp: removeFound_def split: prod.splits option.splits if_splits
      dest!: gomod_wd removeAdded_wd writeGomrFile_wd)

lemma removeLoop_found_kept:
  "found \<Longrightarrow> snd (snd (removeLoop moduleName i replaces deleted found))"
proof (induction moduleName i replaces deleted found rule: removeLoop.induct)
  case (1 moduleName i replaces deleted found)
  then show ?case by (subst removeLoop.simps) auto
qed

lemma removeLoop_found_stays:
  "snd (snd (removeLoop moduleName i replaces deleted True)) = True"
  by (simp add: removeLoop_found_kept)

lemma removeLoop_finds:
  assumes "i \<le> j" "j < length replaces" "ToLower (ModuleName (replaces ! j)) = ToLower moduleName"
  shows "snd (snd (removeLoop moduleName i replaces deleted found)) = True"
  using assms
proof (induction "j - i" arbitrary: i found deleted)
  case 0
  then have "i = j" by simp
  with 0 show ?case
    by (subst removeLoop.simps) (simp add: removeLoop_found_stays)
next
  case (Suc n)
  then have lt: "i < j" by simp
  show ?case
  proof (cases "ToLower (ModuleName (replaces ! i)) = ToLower moduleName")
    case True
    with lt Suc.prems show ?thesis
      by (subst removeLoop.simps) (simp add: removeLoop_found_stays)
  next
    case False
    have "snd (snd (removeLoop moduleName (i + 1) replaces deleted found)) = True"
      using Suc.hyps(2) lt Suc.prems by (intro Suc.hyps(1)) auto
    with False lt Suc.prems show ?thesis
      by (subst removeLoop.simps) simp
  qed
qed

lemma removeLoop_found:
  assumes "list_ex (\<lambda>r. ToLower (ModuleName r) = ToLower moduleName) replaces"
  shows "\<exists>replaces' deleted'. removeLoop moduleName 0 replaces deleted False = (replaces', deleted', True)"
proof -
  from assms obtain j where "j < length replaces" "ToLower (ModuleName (replaces ! j)) = ToLower moduleName"
    by (auto simp: list_ex_iff in_set_conv_nth)
  then have "snd (snd (removeLoop moduleName 0 replaces deleted False)) = True"
    by (intro removeLoop_finds [where j = j]) auto
  then show ?thesis
    by (cases "removeLoop moduleName 0 replaces deleted False") auto
qed

lemma removeLoop_none:
  assumes "\<not> list_ex (\<lambda>r. ToLower (ModuleName r) = ToLower moduleName) replaces"
  shows "removeLoop moduleName i replaces deleted found = (replaces, deleted, found)"
  using assms
proof (induction "length replaces - i" arbitrary: i)
  case 0
  then show ?case by (subst removeLoop.simps) simp
next
  case (Suc n)
  then have "i < length replaces" by simp
  moreover from this Suc.prems have "ToLower (ModuleName (replaces ! i)) \<noteq> ToLower moduleName"
    by (auto simp: list_ex_iff)
  moreover have "removeLoop moduleName (i + 1) replaces deleted found = (replaces, deleted, found)"
    using Suc by (intro Suc.hyps(1)) auto
  ultimately show ?case by (subst removeLoop.simps) simp
qed


text \<open>When no stored name matches, \<^verbatim>\<open>removeRun\<close> only prints, and returns no error.\<close>

lemma Sprintf_not_found:
  "Sprintf ''could not find stored replace for module: %s\<newline>'' [n]
     = ''could not find stored replace for module: '' @ n @ ''\<newline>''"
  by simp

lemma removeRun_not_found:
  assumes "findModuleRoot w = Some (Inr modRoot)"
    and "readGomrFile w (Join [modRoot, gomrFilename]) = Inr replaces"
    and "\<not> list_ex (\<lambda>r. ToLower (ModuleName r) = ToLower moduleName) replaces"
  shows "removeRun go (moduleName # rest) w
           = Some (None, w\<lparr>stdout := stdout w @ ''could not find stored replace for module: ''
                                       @ moduleName @ ''\<newline>''\<rparr>)"
  using assms(1,2) removeLoop_none [OF assms(3)]
  by (simp add: removeRun_def Sprintf_not_found)

subsection \<open>Joined paths keep their last element\<close>










subsection \<open>Formatting and scanning\<close>

lemma Sprintf_path_missing: "Sprintf ''path %s does not exist'' [p] = ''path '' @ p @ '' does not exist''"
  by simp

lemma scanLoop_wellformed:
  assumes "list_all (\<lambda>l. length l < MaxScanTokenSize \<and> 2 \<le> length (Fields (dropCR l))) ls"
  shows "scanLoop replaces ls =
           Inr (replaces @ map (\<lambda>l. \<lparr>ModuleName = Fields (dropCR l) ! 0,
                    AbsPath = (if HasPrefix (Fields (dropCR l) ! 1) ''!'' then drop 1 (Fields (dropCR l) ! 1)
                               else Fields (dropCR l) ! 1),
                    AddGoMod = HasPrefix (Fields (dropCR l) ! 1) ''!''\<rparr>) ls)"
  using assms
proof (induction ls arbitrary: replaces)
  case Nil
  then show ?case by simp
next
  case (Cons l ls)
  from Cons.prems obtain s0 s1 rest where f: "Fields (dropCR l) = s0 # s1 # rest"
    by (cases "Fields (dropCR l)"; cases "tl (Fields (dropCR l))") auto
  from Cons.prems have short: "\<not> MaxScanTokenSize \<le> length l" by simp
  from Cons.prems have "list_all (\<lambda>l. length l < MaxScanTokenSize \<and> 2 \<le> length (Fields (dropCR l))) ls"
    by simp
  note IH = Cons.IH [OF this]
  show ?case
    by (simp add: short parseLine_def f IH)
qed

subsection \<open>The loop of upRun\<close>

lemma Sprintf_init_failed: "Sprintf ''failed to go mod init in dir: %s'' [p] = ''failed to go mod init in dir: '' @ p"
  by simp

lemma upLoop_Inr:
  "upLoop go rs args w = (Inr args', w') \<Longrightarrow>
     args' = args @ map (\<lambda>r. ''-replace='' @ ModuleName r @ ''='' @ AbsPath r) rs
     \<and> invocations w' = invocations w @ map (\<lambda>r. (AbsPath r, [''mod'', ''init'', ModuleName r])) (filter AddGoMod rs)
     \<and> wd w' = wd w"
proof (induction rs arbitrary: args w)
  case Nil
  then show ?case by simp
next
  case (Cons r rs)
  show ?case
  proof (cases "AddGoMod r")
    case False
    with Cons.prems have "upLoop go rs (args @ [Sprintf ''-replace=%s=%s'' [ModuleName r, AbsPath r]]) w = (Inr args', w')"
      by simp
    from Cons.IH [OF this] False show ?thesis by (simp add: Sprintf_replace)
  next
    case True
    obtain e w1 where g: "gomod go (AbsPath r) [''init'', ModuleName r] w = (e, w1)"
      by (cases "gomod go (AbsPath r) [''init'', ModuleName r] w")
    with Cons.prems True have e: "e = None" by (cases e) auto
    with Cons.prems True g
    have "upLoop go rs (args @ [Sprintf ''-replace=%s=%s'' [ModuleName r, AbsPath r]]) w1 = (Inr args', w')"
      by simp
    from Cons.IH [OF this] True gomod_invocations [OF g] gomod_wd [OF g]
    show ?thesis by (simp add: Sprintf_replace)
  qed
qed

lemma upLoop_Inl:
  "upLoop go rs args w = (Inl err, w') \<Longrightarrow>
     \<exists>k. invocations w' = invocations w @ take k (map (\<lambda>r. (AbsPath r, [''mod'', ''init'', ModuleName r])) (filter AddGoMod rs))"
proof (induction rs arbitrary: args w)
  case Nil
  then show ?case by simp
next
  case (Cons r rs)
  show ?case
  proof (cases "AddGoMod r")
    case False
    with Cons.prems have "upLoop go rs (args @ [Sprintf ''-replace=%s=%s'' [ModuleName r, AbsPath r]]) w = (Inl err, w')"
      by simp
    from Cons.IH [OF this] False show ?thesis by simp
  next
    case True
    obtain e w1 where g: "gomod go (AbsPath r) [''init'', ModuleName r] w = (e, w1)"
      by (cases "gomod go (AbsPath r) [''init'', ModuleName r] w")
    show ?thesis
    proof (cases e)
      case None
      with Cons.prems True g
      have "upLoop go rs (args @ [Sprintf ''-replace=%s=%s'' [ModuleName r, AbsPath r]]) w1 = (Inl err, w')"
        by simp
      from Cons.IH [OF this] obtain k where
        "invocations w' = invocations w1 @ take k (map (\<lambda>r. (AbsPath r, [''mod'', ''init'', ModuleName r])) (filter AddGoMod rs))"
        by blast
      with True gomod_invocations [OF g]
      have "invocations w' = invocations w @ take (Suc k) (map (\<lambda>r. (AbsPath r, [''mod'', ''init'', ModuleName r])) (filter AddGoMod (r # rs)))"
        by simp
      then show ?thesis by blast
    next
      case (Some x)
      with Cons.prems True g have "w' = w1" by simp
      with True gomod_invocations [OF g]
      have "invocations w' = invocations w @ take (Suc 0) (map (\<lambda>r. (AbsPath r, [''mod'', ''init'', ModuleName r])) (filter AddGoMod (r # rs)))"
        by simp
      then show ?thesis by blast
    qed
  qed
qed

lemma upLoop_append:
  "upLoop go (pre @ post) args w =
     (case upLoop go pre args w of (Inl err, w1) \<Rightarrow> (Inl err, w1) | (Inr args1, w1) \<Rightarrow> upLoop go post args1 w1)"
  by (induction pre arbitrary: args w) (auto split: prod.splits option.splits sum.splits)

lemma upLoop_init_fails:
  assumes "AddGoMod r" "fst (go w (AbsPath r) [''mod'', ''init'', ModuleName r]) \<noteq> None"
  shows "\<exists>w'. upLoop go (r # post) args w
                 = (Inl (Wrap ExitError (''failed to go mod init in dir: '' @ AbsPath r)), w')
              \<and> invocations w' = invocations w @ [(AbsPath r, [''mod'', ''init'', ModuleName r])]"
proof -
  obtain e w1 where g: "gomod go (AbsPath r) [''init'', ModuleName r] w = (e, w1)"
    by (cases "gomod go (AbsPath r) [''init'', ModuleName r] w")
  from gomod_ok [OF g] assms(2) have "e \<noteq> None" by simp
  moreover from g have "e = None \<or> e = Some ExitError"
    by (auto simp: gomod_def Let_def split: option.splits)
  ultimately have "e = Some ExitError" by blast
  with assms(1) g gomod_invocations [OF g] show ?thesis
    by (simp add: Sprintf_init_failed)
qed

lemma upRun_loop_fails:
  assumes "findModuleRoot w = Some (Inr modRoot)"
    and "readGomrFile w (Join [modRoot, gomrFilename]) = Inr replaces"
    and "upLoop go replaces [] w = (Inl err, w1)"
  shows "upRun go w = Some (Some err, w1)"
  using assms by (simp add: upRun_def)

lemma upRun_loop_done:
  assumes "findModuleRoot w = Some (Inr modRoot)"
    and "readGomrFile w (Join [modRoot, gomrFilename]) = Inr replaces"
    and "upLoop go replaces [] w = (Inr replaceArgs, w1)"
  shows "\<exists>err w'. upRun go w = Some (err, w')
           \<and> invocations w' = invocations w1 @ [([], ''mod'' # ''edit'' # replaceArgs)]"
proof -
  obtain e w2 where g: "gomod go [] (''edit'' # replaceArgs) w1 = (e, w2)"
    by (cases "gomod go [] (''edit'' # replaceArgs) w1")
  from gomod_invocations [OF g] assms g show ?thesis
    by (cases e) (simp_all add: upRun_def)
qed

lemma upRun_invocations:
  assumes "findModuleRoot w = Some (Inr modRoot)"
    and "readGomrFile w (Join [modRoot, gomrFilename]) = Inr replaces"
    and "upRun go w = Some (err, w')"
  shows "(\<exists>k. invocations w' = invocations w @
              take k (map (\<lambda>r. (AbsPath r, [''mod'', ''init'', ModuleName r])) (filter AddGoMod replaces)
                      @ [([], ''mod'' # ''edit'' # map (\<lambda>r. ''-replace='' @ ModuleName r @ ''='' @ AbsPath r) replaces)]))
       \<and> (err = None \<longrightarrow> invocations w' = invocations w @
              map (\<lambda>r. (AbsPath r, [''mod'', ''init'', ModuleName r])) (filter AddGoMod replaces)
                      @ [([], ''mod'' # ''edit'' # map (\<lambda>r. ''-replace='' @ ModuleName r @ ''='' @ AbsPath r) replaces)])"
proof -
  let ?inits = "map (\<lambda>r. (AbsPath r, [''mod'', ''init'', ModuleName r])) (filter AddGoMod replaces)"
  let ?edit = "([] :: string, ''mod'' # ''edit'' # map (\<lambda>r. ''-replace='' @ ModuleName r @ ''='' @ AbsPath r) replaces)"
  obtain res w1 where l: "upLoop go replaces [] w = (res, w1)"
    by (cases "upLoop go replaces [] w")
  show ?thesis
  proof (cases res)
    case (Inl e)
    from upRun_loop_fails [OF assms(1,2) l [unfolded Inl]] assms(3)
    have r: "err = Some e" "w' = w1" by simp_all
    from upLoop_Inl [OF l [unfolded Inl]] obtain k where
      k: "invocations w1 = invocations w @ take k ?inits" by blast
    have "take k ?inits = take (min k (length ?inits)) (?inits @ [?edit])"
      by (simp add: min_def)
    with k r have "invocations w' = invocations w @ take (min k (length ?inits)) (?inits @ [?edit])"
      by simp
    then have "\<exists>k. invocations w' = invocations w @ take k (?inits @ [?edit])" by blast
    with r show ?thesis by simp
  next
    case (Inr replaceArgs)
    from upLoop_Inr [OF l [unfolded Inr]]
    have a: "replaceArgs = map (\<lambda>r. ''-replace='' @ ModuleName r @ ''='' @ AbsPath r) replaces"
      and i: "invocations w1 = invocations w @ ?inits" by simp_all
    from upRun_loop_done [OF assms(1,2) l [unfolded Inr]] assms(3)
    have "invocations w' = invocations w1 @ [([], ''mod'' # ''edit'' # replaceArgs)]" by auto
    with a i have full: "invocations w' = invocations w @ ?inits @ [?edit]" by simp
    then have "invocations w' = invocations w @ take (Suc (length ?inits)) (?inits @ [?edit])" by simp
    then have "\<exists>k. invocations w' = invocations w @ take k (?inits @ [?edit])" by blast
    with full show ?thesis by simp
  qed
qed

subsection \<open>What downRun leaves alone\<close>










subsection \<open>Evaluating the commands on example worlds\<close>

lemmas run_simps = addRun_def addRecord_def needsGoMod_def Stat_def IsNotExist_def gomod_def
  appendFile_def goTool_def project_def Join_def Clean_def gomrFilename_def findModuleRoot_def
  findLoop_file Let_def observe_def

lemmas store_simps = removeRun_def removeFound_def removeAdded_def Remove_def writeGomrFile_def
  readGomrFile_def readGomr_def parseLine_def Fields_def isSpace_def dropCR_def MaxScanTokenSize_def
  Sprintln_def HasPrefix_def ToLower_def toLowerByte_def

lemma readGomr_a_b:
  "readGomr ''a /x/a\<newline>b !/y/b\<newline>''
     = Inr [\<lparr>ModuleName = ''a'', AbsPath = ''/x/a'', AddGoMod = False\<rparr>,
            \<lparr>ModuleName = ''b'', AbsPath = ''/y/b'', AddGoMod = True\<rparr>]"
  by (simp add: readGomr_def parseLine_def Fields_def isSpace_def dropCR_def MaxScanTokenSize_def HasPrefix_def)



lemma appendFile_invocations: "appendFile name s w = (e, w') \<Longrightarrow> invocations w' = invocations w"
  by (auto simp: appendFile_def split: option.splits node.splits)

lemma addRecord_success:
  assumes "addRecord go moduleName absPath addGoMod modRoot w = (None, w')"
  shows "invocations w' = invocations w
            @ (if addGoMod then [(absPath, [''mod'', ''init'', moduleName])] else [])
            @ [(modRoot, [''mod'', ''edit'', ''-replace='' @ moduleName @ ''='' @ absPath])]"
proof -
  obtain e1 w1 where s1: "(if addGoMod then gomod go absPath [''init'', moduleName] w else (None, w)) = (e1, w1)"
    by (cases "if addGoMod then gomod go absPath [''init'', moduleName] w else (None, w)")
  with assms have e1: "e1 = None" by (cases e1) (auto simp: addRecord_def)
  from s1 have i1: "invocations w1 = invocations w @ (if addGoMod then [(absPath, [''mod'', ''init'', moduleName])] else [])"
    by (auto split: if_splits dest: gomod_invocations)
  obtain e2 w2 where s2: "gomod go modRoot [''edit'', Sprintf ''-replace=%s=%s'' [moduleName, absPath]] w1 = (e2, w2)"
    by (cases "gomod go modRoot [''edit'', Sprintf ''-replace=%s=%s'' [moduleName, absPath]] w1")
  with assms s1 e1 have e2: "e2 = None" by (cases e2) (auto simp: addRecord_def)
  note i2 = gomod_invocations [OF s2]
  obtain e3 w3 where s3: "appendFile (Join [modRoot, gomrFilename])
      (Sprintf (if addGoMod then ''%s !%s'' else ''%s %s'') [moduleName, absPath]) w2 = (e3, w3)"
    by (cases "appendFile (Join [modRoot, gomrFilename])
      (Sprintf (if addGoMod then ''%s !%s'' else ''%s %s'') [moduleName, absPath]) w2")
  with assms s1 e1 s2 e2 have "invocations w' = invocations w3"
    by (cases e3) (auto simp: addRecord_def Let_def)
  with appendFile_invocations [OF s3] i2 i1 show ?thesis
    by (simp add: Sprintf_replace)
qed


lemma removeLoop_Foo_foo:
  "removeLoop ''foo'' 0
     [\<lparr>ModuleName = ''Foo'', AbsPath = ''/a'', AddGoMod = False\<rparr>,
      \<lparr>ModuleName = ''foo'', AbsPath = ''/b'', AddGoMod = False\<rparr>]
     \<lparr>ModuleName = [], AbsPath = [], AddGoMod = False\<rparr> False
   = ([\<lparr>ModuleName = ''foo'', AbsPath = ''/b'', AddGoMod = False\<rparr>],
      \<lparr>ModuleName = ''Foo'', AbsPath = ''/a'', AddGoMod = False\<rparr>, True)"
  apply (subst removeLoop.simps, simp add: ToLower_def toLowerByte_def)
  apply (subst removeLoop.simps, simp add: ToLower_def toLowerByte_def)
  done

lemma removeLoop_single_a:
  "removeLoop ''a'' 0 [\<lparr>ModuleName = ''a'', AbsPath = ''/x/a'', AddGoMod = False\<rparr>]
     \<lparr>ModuleName = [], AbsPath = [], AddGoMod = False\<rparr> False
   = ([], \<lparr>ModuleName = ''a'', AbsPath = ''/x/a'', AddGoMod = False\<rparr>, True)"
  apply (subst removeLoop.simps, simp add: ToLower_def toLowerByte_def)
  apply (subst removeLoop.simps, simp add: ToLower_def toLowerByte_def)
  done

section \<open>The claims about the commands\<close>

text \<open>
  Claim C3: \<^verbatim>\<open>remove(name)\<close> deletes from the store every record whose name equals the
  given one without regard to case, duplicates included. The loop of \<^verbatim>\<open>removeRun\<close> moves
  the last record into the place of the one it deletes and goes on to the next index, so
  the record it moved is never compared: on the store \<open>Foo /a\<close>, \<open>foo /b\<close> the command
  \<^verbatim>\<open>remove foo\<close> returns without error and the record \<open>foo /b\<close> is still in the list it
  writes back (in the line format of \<^verbatim>\<open>writeGomrFile\<close>).
\<close>

theorem removeRun_leaves_duplicate_record:
  "readGomrFile (project ''/proj'' [(''/proj/go.mod'', File ''module proj\<newline>''),
                                   (''/proj/.gomr'', File ''Foo /a\<newline>foo /b\<newline>'')]) ''/proj/.gomr''
     = Inr [\<lparr>ModuleName = ''Foo'', AbsPath = ''/a'', AddGoMod = False\<rparr>,
            \<lparr>ModuleName = ''foo'', AbsPath = ''/b'', AddGoMod = False\<rparr>]
   \<and> removeLoop ''foo'' 0
       [\<lparr>ModuleName = ''Foo'', AbsPath = ''/a'', AddGoMod = False\<rparr>,
        \<lparr>ModuleName = ''foo'', AbsPath = ''/b'', AddGoMod = False\<rparr>]
       \<lparr>ModuleName = [], AbsPath = [], AddGoMod = False\<rparr> False
     = ([\<lparr>ModuleName = ''foo'', AbsPath = ''/b'', AddGoMod = False\<rparr>],
        \<lparr>ModuleName = ''Foo'', AbsPath = ''/a'', AddGoMod = False\<rparr>, True)
   \<and> observe ''/proj/.gomr''
       (removeRun goTool [''foo'']
          (project ''/proj'' [(''/proj/go.mod'', File ''module proj\<newline>''),
                             (''/proj/.gomr'', File ''Foo /a\<newline>foo /b\<newline>'')]))
     = Some (None, Some (File ''%s %s foo /b\<newline>''), [([], [''mod'', ''edit'', ''-dropreplace=foo''])])"
  by (simp add: run_simps store_simps removeLoop_Foo_foo)

text \<open>
  Claim C4: \<^verbatim>\<open>save\<close> writes one line \<open>name path\<close> per record, and \<^verbatim>\<open>add\<close> appends one
  record in the same one-line encoding, so that \<open>n\<close> adds leave \<open>n\<close> lines. \<^verbatim>\<open>addRun\<close>
  prints the record with the format \<^verbatim>\<open>"%s %s"\<close>, which has no newline: after the adds
  of \<open>a\<close> and \<open>b\<close> the store is the single line \<^verbatim>\<open>a /x/ab !/y/b\<close>, which reads back as one
  record with path \<^verbatim>\<open>/x/ab\<close>. \<^verbatim>\<open>writeGomrFile\<close> writes the same two records as the lines
  \<^verbatim>\<open>%s %s a /x/a\<close> and \<^verbatim>\<open>%s %s b !/y/b\<close>: the encodings of the two paths differ.
\<close>

theorem addRun_twice_writes_one_line:
  "observe ''/proj/.gomr''
     (addTwice (project ''/proj''
        [(''/proj/go.mod'', File ''module proj\<newline>''), (''/x/a'', Dir),
         (''/x/a/go.mod'', File ''module a\<newline>''), (''/y/b'', Dir)]))
     = Some (None, Some (File ''a /x/ab !/y/b''),
             [(''/proj'', [''mod'', ''edit'', ''-replace=a=/x/a'']),
              (''/y/b'', [''mod'', ''init'', ''b'']),
              (''/proj'', [''mod'', ''edit'', ''-replace=b=/y/b''])])
   \<and> linesFrom [] ''a /x/ab !/y/b'' = [''a /x/ab !/y/b'']
   \<and> readGomr ''a /x/ab !/y/b'' = Inr [\<lparr>ModuleName = ''a'', AbsPath = ''/x/ab'', AddGoMod = False\<rparr>]
   \<and> writeLoop [] [\<lparr>ModuleName = ''a'', AbsPath = ''/x/a'', AddGoMod = False\<rparr>,
                    \<lparr>ModuleName = ''b'', AbsPath = ''/y/b'', AddGoMod = True\<rparr>]
       = ''%s %s a /x/a\<newline>%s %s b !/y/b\<newline>''"
  by (simp add: addTwice_def run_simps readGomr_def parseLine_def Fields_def isSpace_def dropCR_def
      MaxScanTokenSize_def HasPrefix_def Sprintln_def)


text \<open>
  Claim C6: on the store \<open>a /x/a\<close>, \<open>b !/y/b\<close> the command \<^verbatim>\<open>up\<close> runs \<^verbatim>\<open>go mod init\<close> once,
  for \<open>b\<close> in \<^verbatim>\<open>/y/b\<close>, and then one \<^verbatim>\<open>go mod edit\<close> with both \<^verbatim>\<open>-replace\<close> arguments;
  and on any store, when the \<^verbatim>\<open>init\<close> of a record fails (the ones of the records \<open>pre\<close>
  before it having succeeded), \<^verbatim>\<open>up\<close> returns that error and has run only \<^verbatim>\<open>init\<close>s: the
  batched edit is not made. The world is any in which the module root is found.
\<close>

theorem upRun_inits_then_one_batched_edit:
  assumes root: "findModuleRoot w = Some (Inr modRoot)"
  shows "(files w (Join [modRoot, gomrFilename]) = Some (File ''a /x/a\<newline>b !/y/b\<newline>'') \<longrightarrow>
            (\<exists>err w'. upRun go w = Some (err, w')
               \<and> invocations w' = invocations w @
                    (if fst (go w ''/y/b'' [''mod'', ''init'', ''b'']) = None
                     then [(''/y/b'', [''mod'', ''init'', ''b'']),
                           ([], [''mod'', ''edit'', ''-replace=a=/x/a'', ''-replace=b=/y/b''])]
                     else [(''/y/b'', [''mod'', ''init'', ''b''])])))
       \<and> (\<forall>pre r post replaceArgs w1.
              readGomrFile w (Join [modRoot, gomrFilename]) = Inr (pre @ r # post)
              \<and> upLoop go pre [] w = (Inr replaceArgs, w1)
              \<and> AddGoMod r \<and> fst (go w1 (AbsPath r) [''mod'', ''init'', ModuleName r]) \<noteq> None \<longrightarrow>
              (\<exists>w'. upRun go w
                       = Some (Some (Wrap ExitError (''failed to go mod init in dir: '' @ AbsPath r)), w')
                 \<and> invocations w' = invocations w
                      @ map (\<lambda>r. (AbsPath r, [''mod'', ''init'', ModuleName r])) (filter AddGoMod pre)
                      @ [(AbsPath r, [''mod'', ''init'', ModuleName r])]))"
proof (intro conjI impI allI)
  let ?a = "\<lparr>ModuleName = ''a'', AbsPath = ''/x/a'', AddGoMod = False\<rparr>"
  let ?b = "\<lparr>ModuleName = ''b'', AbsPath = ''/y/b'', AddGoMod = True\<rparr>"
  assume f: "files w (Join [modRoot, gomrFilename]) = Some (File ''a /x/a\<newline>b !/y/b\<newline>'')"
  then have store: "readGomrFile w (Join [modRoot, gomrFilename]) = Inr [?a, ?b]"
    by (simp add: readGomrFile_def readGomr_a_b)
  show "\<exists>err w'. upRun go w = Some (err, w')
               \<and> invocations w' = invocations w @
                    (if fst (go w ''/y/b'' [''mod'', ''init'', ''b'']) = None
                     then [(''/y/b'', [''mod'', ''init'', ''b'']),
                           ([], [''mod'', ''edit'', ''-replace=a=/x/a'', ''-replace=b=/y/b''])]
                     else [(''/y/b'', [''mod'', ''init'', ''b''])])"
  proof (cases "fst (go w ''/y/b'' [''mod'', ''init'', ''b'']) = None")
    case True
    obtain e w1 where g: "gomod go ''/y/b'' [''init'', ''b''] w = (e, w1)"
      by (cases "gomod go ''/y/b'' [''init'', ''b''] w")
    from gomod_ok [OF g] True have "e = None" by simp
    with g have l: "upLoop go [?a, ?b] [] w = (Inr [''-replace=a=/x/a'', ''-replace=b=/y/b''], w1)"
      by simp
    from upRun_loop_done [OF root store l] gomod_invocations [OF g] True
    show ?thesis by auto
  next
    case False
    have "AddGoMod ?b" by simp
    from upLoop_init_fails [OF this, of go w "[]" "[''-replace=a=/x/a'']"] False
    obtain w1 where l: "upLoop go [?b] [''-replace=a=/x/a''] w
           = (Inl (Wrap ExitError (''failed to go mod init in dir: '' @ ''/y/b'')), w1)"
      and i: "invocations w1 = invocations w @ [(''/y/b'', [''mod'', ''init'', ''b''])]"
      by auto
    from l have "upLoop go [?a, ?b] [] w
           = (Inl (Wrap ExitError (''failed to go mod init in dir: '' @ ''/y/b'')), w1)"
      by simp
    from upRun_loop_fails [OF root store this] i False show ?thesis by simp
  qed
next
  fix pre r post replaceArgs w1
  assume h: "readGomrFile w (Join [modRoot, gomrFilename]) = Inr (pre @ r # post)
              \<and> upLoop go pre [] w = (Inr replaceArgs, w1)
              \<and> AddGoMod r \<and> fst (go w1 (AbsPath r) [''mod'', ''init'', ModuleName r]) \<noteq> None"
  then have store: "readGomrFile w (Join [modRoot, gomrFilename]) = Inr (pre @ r # post)"
    and pre: "upLoop go pre [] w = (Inr replaceArgs, w1)"
    and syn: "AddGoMod r"
    and fails: "fst (go w1 (AbsPath r) [''mod'', ''init'', ModuleName r]) \<noteq> None"
    by simp_all
  from upLoop_init_fails [where go = go and w = w1 and r = r and post = post and args = replaceArgs,
      OF syn fails]
  obtain w' where l: "upLoop go (r # post) replaceArgs w1
           = (Inl (Wrap ExitError (''failed to go mod init in dir: '' @ AbsPath r)), w')"
    and i: "invocations w' = invocations w1 @ [(AbsPath r, [''mod'', ''init'', ModuleName r])]"
    by blast
  from pre l have "upLoop go (pre @ r # post) [] w
           = (Inl (Wrap ExitError (''failed to go mod init in dir: '' @ AbsPath r)), w')"
    by (simp add: upLoop_append)
  from upRun_loop_fails [OF root store this] i upLoop_Inr [OF pre]
  show "\<exists>w'. upRun go w
                       = Some (Some (Wrap ExitError (''failed to go mod init in dir: '' @ AbsPath r)), w')
                 \<and> invocations w' = invocations w
                      @ map (\<lambda>r. (AbsPath r, [''mod'', ''init'', ModuleName r])) (filter AddGoMod pre)
                      @ [(AbsPath r, [''mod'', ''init'', ModuleName r])]"
    by simp
qed


text \<open>
  The scenario of C6 with the example tool, and the same store when \<^verbatim>\<open>/y/b/go.mod\<close> is
  already there, which makes the \<^verbatim>\<open>init\<close> of \<open>b\<close> fail.
\<close>

theorem upRun_inits_then_one_batched_edit_witness:
  "findModuleRoot (project ''/proj''
      [(''/proj/go.mod'', File ''module proj\<newline>''), (''/proj/.gomr'', File ''a /x/a\<newline>b !/y/b\<newline>'')])
     = Some (Inr ''/proj'')
   \<and> files (project ''/proj''
      [(''/proj/go.mod'', File ''module proj\<newline>''), (''/proj/.gomr'', File ''a /x/a\<newline>b !/y/b\<newline>'')])
       (Join [''/proj'', gomrFilename]) = Some (File ''a /x/a\<newline>b !/y/b\<newline>'')
   \<and> observe ''/y/b/go.mod'' (upRun goTool (project ''/proj''
      [(''/proj/go.mod'', File ''module proj\<newline>''), (''/proj/.gomr'', File ''a /x/a\<newline>b !/y/b\<newline>'')]))
     = Some (None, Some (File ''module b\<newline>''),
             [(''/y/b'', [''mod'', ''init'', ''b'']),
              ([], [''mod'', ''edit'', ''-replace=a=/x/a'', ''-replace=b=/y/b''])])
   \<and> findModuleRoot (project ''/proj''
      [(''/proj/go.mod'', File ''module proj\<newline>''), (''/proj/.gomr'', File ''a /x/a\<newline>b !/y/b\<newline>''),
       (''/y/b/go.mod'', File ''module b\<newline>'')])
     = Some (Inr ''/proj'')
   \<and> readGomrFile (project ''/proj''
      [(''/proj/go.mod'', File ''module proj\<newline>''), (''/proj/.gomr'', File ''a /x/a\<newline>b !/y/b\<newline>''),
       (''/y/b/go.mod'', File ''module b\<newline>'')]) (Join [''/proj'', gomrFilename])
     = Inr ([\<lparr>ModuleName = ''a'', AbsPath = ''/x/a'', AddGoMod = False\<rparr>]
            @ \<lparr>ModuleName = ''b'', AbsPath = ''/y/b'', AddGoMod = True\<rparr> # [])
   \<and> fst (goTool (project ''/proj''
      [(''/proj/go.mod'', File ''module proj\<newline>''), (''/proj/.gomr'', File ''a /x/a\<newline>b !/y/b\<newline>''),
       (''/y/b/go.mod'', File ''module b\<newline>'')]) ''/y/b'' [''mod'', ''init'', ''b''])
     = Some ''go: go.mod already exists''
   \<and> observe ''/y/b/go.mod'' (upRun goTool (project ''/proj''
      [(''/proj/go.mod'', File ''module proj\<newline>''), (''/proj/.gomr'', File ''a /x/a\<newline>b !/y/b\<newline>''),
       (''/y/b/go.mod'', File ''module b\<newline>'')]))
     = Some (Some (Wrap ExitError ''failed to go mod init in dir: /y/b''), Some (File ''module b\<newline>''),
             [(''/y/b'', [''mod'', ''init'', ''b''])])"
proof -
  let ?w = "project ''/proj''
      [(''/proj/go.mod'', File ''module proj\<newline>''), (''/proj/.gomr'', File ''a /x/a\<newline>b !/y/b\<newline>'')]"
  let ?v = "project ''/proj''
      [(''/proj/go.mod'', File ''module proj\<newline>''), (''/proj/.gomr'', File ''a /x/a\<newline>b !/y/b\<newline>''),
       (''/y/b/go.mod'', File ''module b\<newline>'')]"
  let ?a = "\<lparr>ModuleName = ''a'', AbsPath = ''/x/a'', AddGoMod = False\<rparr>"
  let ?b = "\<lparr>ModuleName = ''b'', AbsPath = ''/y/b'', AddGoMod = True\<rparr>"
  have w1: "findModuleRoot ?w = Some (Inr ''/proj'')"
    by (simp add: run_simps)
  have w2: "files ?w (Join [''/proj'', gomrFilename]) = Some (File ''a /x/a\<newline>b !/y/b\<newline>'')"
    by (simp add: run_simps)
  have w3: "fst (goTool ?w ''/y/b'' [''mod'', ''init'', ''b'']) = None"
    by (simp add: run_simps)
  have v1: "findModuleRoot ?v = Some (Inr ''/proj'')"
    by (simp add: run_simps)
  have v2: "readGomrFile ?v (Join [''/proj'', gomrFilename]) = Inr ([?a] @ ?b # [])"
    by (simp add: run_simps readGomrFile_def readGomr_a_b)
  have v3: "upLoop goTool [?a] [] ?v = (Inr [''-replace=a=/x/a''], ?v)"
    by simp
  have v4: "fst (goTool ?v ''/y/b'' [''mod'', ''init'', ''b'']) = Some ''go: go.mod already exists''"
    by (simp add: run_simps)
  have w5: "observe ''/y/b/go.mod'' (upRun goTool ?w)
     = Some (None, Some (File ''module b\<newline>''),
             [(''/y/b'', [''mod'', ''init'', ''b'']),
              ([], [''mod'', ''edit'', ''-replace=a=/x/a'', ''-replace=b=/y/b''])])"
    by (simp add: upRun_def run_simps readGomrFile_def readGomr_a_b)
  have v5: "observe ''/y/b/go.mod'' (upRun goTool ?v)
     = Some (Some (Wrap ExitError ''failed to go mod init in dir: /y/b''), Some (File ''module b\<newline>''),
             [(''/y/b'', [''mod'', ''init'', ''b''])])"
    by (simp add: upRun_def run_simps readGomrFile_def readGomr_a_b)
  note upRun_inits_then_one_batched_edit [OF w1, of goTool]
    upRun_inits_then_one_batched_edit [OF v1, of goTool]
  with w1 w2 w3 w5 v1 v2 v3 v4 v5 show ?thesis by blast
qed







text \<open>
  Claim C8, as stated: \<^verbatim>\<open>remove\<close> runs the edit with the located module root as the
  working directory of the invocation. \<^verbatim>\<open>removeRun\<close> passes the empty directory to
  \<^verbatim>\<open>gomod\<close>, which then leaves \<^verbatim>\<open>cmd.Dir\<close> unset: in the module \<^verbatim>\<open>/proj\<close> the one invocation
  has the directory \<^verbatim>\<open>""\<close>, not \<^verbatim>\<open>/proj\<close>.
\<close>

theorem removeRun_edit_directory_is_empty:
  "findModuleRoot (project ''/proj'' [(''/proj/go.mod'', File ''module proj\<newline>''),
                                     (''/proj/.gomr'', File ''a /x/a\<newline>'')]) = Some (Inr ''/proj'')
   \<and> observe ''/proj/.gomr'' (removeRun goTool [''a'']
          (project ''/proj'' [(''/proj/go.mod'', File ''module proj\<newline>''),
                             (''/proj/.gomr'', File ''a /x/a\<newline>'')]))
     = Some (None, Some (File []), [([], [''mod'', ''edit'', ''-dropreplace=a''])])"
  by (simp add: run_simps store_simps removeLoop_single_a)

text \<open>
  Claim C8, amended: when the module root is found and a stored record matches the name,
  \<^verbatim>\<open>remove\<close> returns after exactly one run of \<^verbatim>\<open>go\<close>, the edit with the one argument
  \<^verbatim>\<open>-dropreplace=name\<close>, made with an empty directory, that is in the working directory
  of the process; that working directory is the directory \<^verbatim>\<open>findModuleRoot\<close> returned.
\<close>

theorem removeRun_edit_in_working_directory:
  assumes "findModuleRoot w = Some (Inr modRoot)"
    and "readGomrFile w (Join [modRoot, gomrFilename]) = Inr replaces"
    and "list_ex (\<lambda>r. ToLower (ModuleName r) = ToLower moduleName) replaces"
  shows "\<exists>err w'. removeRun go (moduleName # rest) w = Some (err, w')
           \<and> invocations w' = invocations w @ [([], [''mod'', ''edit'', ''-dropreplace='' @ moduleName])]
           \<and> wd w' = Some modRoot"
proof -
  obtain replaces' deleted' where loop:
    "removeLoop moduleName 0 replaces \<lparr>ModuleName = [], AbsPath = [], AddGoMod = False\<rparr> False
       = (replaces', deleted', True)"
    using removeLoop_found [OF assms(3)] by blast
  obtain err w' where found:
    "removeFound go moduleName (Join [modRoot, gomrFilename]) replaces' deleted' w = (err, w')"
    by (cases "removeFound go moduleName (Join [modRoot, gomrFilename]) replaces' deleted' w")
  have "removeRun go (moduleName # rest) w = Some (err, w')"
    unfolding removeRun_def by (simp add: assms(1,2) loop found Let_def)
  moreover note removeFound_invocations [OF found]
  moreover from assms(1) have "wd w = Some modRoot" by (simp add: findModuleRoot_Inr)
  moreover note removeFound_wd [OF found]
  ultimately show ?thesis by simp
qed

text \<open>The amended C8 in the module \<^verbatim>\<open>/proj\<close>, for \<^verbatim>\<open>remove A\<close> on the store \<open>a /x/a\<close>.\<close>

theorem removeRun_edit_in_working_directory_witness:
  "findModuleRoot (project ''/proj'' [(''/proj/go.mod'', File ''module proj\<newline>''),
                                   (''/proj/.gomr'', File ''a /x/a\<newline>'')]) = Some (Inr ''/proj'')
   \<and> readGomrFile (project ''/proj'' [(''/proj/go.mod'', File ''module proj\<newline>''),
                                   (''/proj/.gomr'', File ''a /x/a\<newline>'')]) (Join [''/proj'', gomrFilename])
       = Inr [\<lparr>ModuleName = ''a'', AbsPath = ''/x/a'', AddGoMod = False\<rparr>]
   \<and> list_ex (\<lambda>r. ToLower (ModuleName r) = ToLower ''A'')
        [\<lparr>ModuleName = ''a'', AbsPath = ''/x/a'', AddGoMod = False\<rparr>]
   \<and> (\<exists>err w'. removeRun goTool [''A'']
          (project ''/proj'' [(''/proj/go.mod'', File ''module proj\<newline>''),
                             (''/proj/.gomr'', File ''a /x/a\<newline>'')]) = Some (err, w')
         \<and> invocations w' = [([], [''mod'', ''edit'', ''-dropreplace=A''])] \<and> wd w' = Some ''/proj'')"
proof -
  let ?w = "project ''/proj'' [(''/proj/go.mod'', File ''module proj\<newline>''),
                             (''/proj/.gomr'', File ''a /x/a\<newline>'')]"
  have 1: "findModuleRoot ?w = Some (Inr ''/proj'')"
    by (simp add: run_simps)
  have 2: "readGomrFile ?w (Join [''/proj'', gomrFilename])
       = Inr [\<lparr>ModuleName = ''a'', AbsPath = ''/x/a'', AddGoMod = False\<rparr>]"
    by (simp add: run_simps store_simps)
  have 3: "list_ex (\<lambda>r. ToLower (ModuleName r) = ToLower ''A'')
             [\<lparr>ModuleName = ''a'', AbsPath = ''/x/a'', AddGoMod = False\<rparr>]"
    by (simp add: ToLower_def toLowerByte_def)
  from removeRun_edit_in_working_directory [OF 1 2 3, of goTool "[]"] 1 2 3
  show ?thesis by (simp add: project_def)
qed

text \<open>
  Claim C9: without an explicit path (none, or an empty one) \<^verbatim>\<open>add\<close> takes the path
  \<^verbatim>\<open>$GOPATH/src/name\<close>, joined by \<^verbatim>\<open>filepath.Join\<close>; when the resolved or given path
  does not exist, \<^verbatim>\<open>add\<close> returns the error "path ... does not exist" and the world is
  as it was: no run of \<^verbatim>\<open>go\<close>, no write to the store. The resolved path is also the one
  a successful \<^verbatim>\<open>add\<close> hands to \<^verbatim>\<open>go mod edit\<close>.
\<close>

theorem addRun_resolves_path_and_stops_on_missing_path:
  assumes "absPath = (case rest of
                        [] \<Rightarrow> Join [GOPATH w, ''src'', moduleName]
                      | given # others \<Rightarrow> if given = [] then Join [GOPATH w, ''src'', moduleName] else given)"
  shows "(files w absPath = None \<longrightarrow>
            addRun go (moduleName # rest) w
              = Some (Some (ErrorString (''path '' @ absPath @ '' does not exist'')), w))
       \<and> (\<forall>w'. addRun go (moduleName # rest) w = Some (None, w') \<longrightarrow>
            (\<exists>modRoot. findModuleRoot w = Some (Inr modRoot)
               \<and> last (invocations w')
                   = (modRoot, [''mod'', ''edit'', ''-replace='' @ moduleName @ ''='' @ absPath])))"
proof (intro conjI impI allI)
  assume "files w absPath = None"
  with assms show "addRun go (moduleName # rest) w
              = Some (Some (ErrorString (''path '' @ absPath @ '' does not exist'')), w)"
    by (auto simp: addRun_def Let_def Stat_def IsNotExist_def Sprintf_path_missing split: list.splits)
next
  fix w'
  assume ok: "addRun go (moduleName # rest) w = Some (None, w')"
  have abs: "(if length (case rest of [] \<Rightarrow> [] | a # as \<Rightarrow> a) = 0
              then Join [GOPATH w, ''src'', moduleName] else (case rest of [] \<Rightarrow> [] | a # as \<Rightarrow> a)) = absPath"
    using assms by (auto split: list.splits)
  from ok obtain addGoMod modRoot where root: "findModuleRoot w = Some (Inr modRoot)"
    and rec: "addRecord go moduleName absPath addGoMod modRoot w = (None, w')"
    unfolding addRun_def Let_def abs list.case
    by (auto split: sum.splits option.splits if_splits)
  from addRecord_success [OF rec] root
  show "\<exists>modRoot. findModuleRoot w = Some (Inr modRoot)
               \<and> last (invocations w')
                   = (modRoot, [''mod'', ''edit'', ''-replace='' @ moduleName @ ''='' @ absPath])"
    by simp
qed


text \<open>
  C9 for \<^verbatim>\<open>add pkg\<close> with \<^verbatim>\<open>GOPATH=/ws\<close>: without \<^verbatim>\<open>/ws/src/pkg\<close> the command fails and
  changes nothing, with it the replace is made for \<^verbatim>\<open>/ws/src/pkg\<close>.
\<close>

theorem addRun_resolves_path_and_stops_on_missing_path_witness:
  "Join [GOPATH (project ''/proj'' [(''/proj/go.mod'', File ''module proj\<newline>'')]), ''src'', ''pkg''] = ''/ws/src/pkg''
   \<and> files (project ''/proj'' [(''/proj/go.mod'', File ''module proj\<newline>'')]) ''/ws/src/pkg'' = None
   \<and> addRun goTool [''pkg''] (project ''/proj'' [(''/proj/go.mod'', File ''module proj\<newline>'')])
       = Some (Some (ErrorString ''path /ws/src/pkg does not exist''),
               project ''/proj'' [(''/proj/go.mod'', File ''module proj\<newline>'')])
   \<and> observe ''/proj/.gomr''
        (addRun goTool [''pkg'']
           (project ''/proj'' [(''/proj/go.mod'', File ''module proj\<newline>''), (''/ws/src/pkg'', Dir),
                              (''/ws/src/pkg/go.mod'', File ''module pkg\<newline>'')]))
       = Some (None, Some (File ''pkg /ws/src/pkg''),
               [(''/proj'', [''mod'', ''edit'', ''-replace=pkg=/ws/src/pkg''])])"
proof -
  let ?w = "project ''/proj'' [(''/proj/go.mod'', File ''module proj\<newline>'')]"
  let ?v = "project ''/proj'' [(''/proj/go.mod'', File ''module proj\<newline>''), (''/ws/src/pkg'', Dir),
                              (''/ws/src/pkg/go.mod'', File ''module pkg\<newline>'')]"
  have 1: "Join [GOPATH ?w, ''src'', ''pkg''] = ''/ws/src/pkg''"
    by (simp add: project_def Join_def Clean_def)
  have 2: "files ?w ''/ws/src/pkg'' = None"
    by (simp add: project_def)
  have 3: "observe ''/proj/.gomr'' (addRun goTool [''pkg''] ?v)
       = Some (None, Some (File ''pkg /ws/src/pkg''),
               [(''/proj'', [''mod'', ''edit'', ''-replace=pkg=/ws/src/pkg''])])"
    by (simp add: run_simps)
  from addRun_resolves_path_and_stops_on_missing_path
         [where absPath = "''/ws/src/pkg''" and rest = "[]" and w = ?w and moduleName = "''pkg''" and go = goTool]
       1 2 3
  show ?thesis by simp
qed


text \<open>
  Claim C10: a store line with more than two fields is read as the record of its first
  two fields, the others are ignored, and reading succeeds. Here for a whole file: when
  every line has at least two fields (any number more) and is shorter than the scanner's
  token limit, \<^verbatim>\<open>readGomrFile\<close> succeeds and the record of each line is made of the fields
  0 and 1 of that line alone.
\<close>

theorem readGomrFile_uses_first_two_fields:
  assumes "files w path = Some (File contents)"
    and "list_all (\<lambda>l. length l < MaxScanTokenSize \<and> 2 \<le> length (Fields (dropCR l))) (linesFrom [] contents)"
  shows "readGomrFile w path =
           Inr (map (\<lambda>l. \<lparr>ModuleName = Fields (dropCR l) ! 0,
                    AbsPath = (if HasPrefix (Fields (dropCR l) ! 1) ''!'' then drop 1 (Fields (dropCR l) ! 1)
                               else Fields (dropCR l) ! 1),
                    AddGoMod = HasPrefix (Fields (dropCR l) ! 1) ''!''\<rparr>) (linesFrom [] contents))"
  using assms(1) scanLoop_wellformed [OF assms(2), of "[]"]
  by (simp add: readGomrFile_def readGomr_def)


text \<open>C10 on a file whose lines have four and three fields.\<close>

theorem readGomrFile_uses_first_two_fields_witness:
  "files (project ''/proj'' [(''/proj/.gomr'', File ''a /x/a third fourth\<newline>b !/y/b c\<newline>'')]) ''/proj/.gomr''
     = Some (File ''a /x/a third fourth\<newline>b !/y/b c\<newline>'')
   \<and> map (\<lambda>l. (length l, Fields (dropCR l))) (linesFrom [] ''a /x/a third fourth\<newline>b !/y/b c\<newline>'')
     = [(19, [''a'', ''/x/a'', ''third'', ''fourth'']), (9, [''b'', ''!/y/b'', ''c''])]
   \<and> readGomrFile (project ''/proj'' [(''/proj/.gomr'', File ''a /x/a third fourth\<newline>b !/y/b c\<newline>'')]) ''/proj/.gomr''
     = Inr [\<lparr>ModuleName = ''a'', AbsPath = ''/x/a'', AddGoMod = False\<rparr>,
            \<lparr>ModuleName = ''b'', AbsPath = ''/y/b'', AddGoMod = True\<rparr>]"
proof -
  let ?c = "''a /x/a third fourth\<newline>b !/y/b c\<newline>''"
  let ?w = "project ''/proj'' [(''/proj/.gomr'', File ?c)]"
  have 1: "files ?w ''/proj/.gomr'' = Some (File ?c)"
    by (simp add: project_def)
  have 2: "map (\<lambda>l. (length l, Fields (dropCR l))) (linesFrom [] ?c)
     = [(19, [''a'', ''/x/a'', ''third'', ''fourth'']), (9, [''b'', ''!/y/b'', ''c''])]"
    by (simp add: Fields_def isSpace_def dropCR_def)
  have 3: "list_all (\<lambda>l. length l < MaxScanTokenSize \<and> 2 \<le> length (Fields (dropCR l))) (linesFrom [] ?c)"
    by (simp add: Fields_def isSpace_def dropCR_def MaxScanTokenSize_def)
  from readGomrFile_uses_first_two_fields [OF 1 3] 1 2
  show ?thesis
    by (simp add: Fields_def isSpace_def dropCR_def HasPrefix_def)
qed


end
